theory Spec2Isabelle
  imports Complex_Main "HOL-Library.Word"
begin

unbundle bit_operations_syntax

section \<open>Machine types\<close>

type_synonym u8 = "8 word"
type_synonym u16 = "16 word"
type_synonym u64 = "64 word"

text \<open>
  C arrays of fixed size are lists; \<open>memcpy dst src n\<close> overwrites the first \<open>n\<close>
  cells of \<open>dst\<close> with those of \<open>src\<close>. A C string read from a buffer is the
  bytes before the first NUL.
\<close>

definition memcpy :: "'a list \<Rightarrow> 'a list \<Rightarrow> nat \<Rightarrow> 'a list" where
  "memcpy dst src n = take n src @ drop n dst"

definition c_string :: "u8 list \<Rightarrow> u8 list" where
  "c_string buf = takeWhile (\<lambda>ch. ch \<noteq> 0) buf"

section \<open>RDS parser (rds\_parser.h, rds\_parser.c)\<close>

text \<open>
  \<open>rds_group_t\<close>: the four 16-bit blocks of a group. The fields \<open>a\<close>..\<open>d\<close>
  of the source are \<open>blk_a\<close>..\<open>blk_d\<close> here.
\<close>

record rds_group =
  blk_a :: u16
  blk_b :: u16
  blk_c :: u16
  blk_d :: u16

text \<open>
  \<open>rds_parser_t\<close>, with both optional features enabled (the header's defaults).
  The field \<open>pi\<close> of the source is \<open>pi_code\<close> here.
\<close>

record rds_parser =
  pi_code :: u16
  pty :: u8
  tp :: bool
  ta :: bool
  ms :: bool
  di :: u8
  di_scratch :: u8
  ps_str :: "u8 list"
  ps_scratch_str :: "u8 list"
  rt_str :: "u8 list"
  rt_scratch_str :: "u8 list"
  rt_a_b :: bool
  rt_scratch_a_b :: bool
  alt_freq :: "u8 list"
  alt_freq_count :: u8

text \<open>The array sizes declared in the struct.\<close>

definition parser_wf :: "rds_parser \<Rightarrow> bool" where
  "parser_wf p \<longleftrightarrow>
     length (ps_str p) = 9 \<and> length (ps_scratch_str p) = 9 \<and>
     length (rt_str p) = 65 \<and> length (rt_scratch_str p) = 65 \<and>
     length (alt_freq p) = 25"

definition RDS_GROUP_BASIC :: u16 where "RDS_GROUP_BASIC = 0x00"
definition RDS_GROUP_RT :: u16 where "RDS_GROUP_RT = 0x02"

definition rds_get_group_pi :: "rds_group \<Rightarrow> u16" where
  "rds_get_group_pi g = blk_a g"

definition rds_get_group_type :: "rds_group \<Rightarrow> u16" where
  "rds_get_group_type g = drop_bit 12 (blk_b g)"

definition rds_get_group_version :: "rds_group \<Rightarrow> u8" where
  "rds_get_group_version g = ucast (drop_bit 11 (blk_b g) AND 0x01)"

definition rds_get_group_tp :: "rds_group \<Rightarrow> bool" where
  "rds_get_group_tp g \<longleftrightarrow> drop_bit 10 (blk_b g) AND 0x01 \<noteq> 0"

definition rds_get_group_pty :: "rds_group \<Rightarrow> u8" where
  "rds_get_group_pty g = ucast (drop_bit 5 (blk_b g) AND 0x1F)"

definition hi_byte :: "u16 \<Rightarrow> u8" where
  "hi_byte x = ucast (drop_bit 8 x)"

definition lo_byte :: "u16 \<Rightarrow> u8" where
  "lo_byte x = ucast (x AND 0xFF)"

definition rds_parse_group_basic_ps :: "rds_parser \<Rightarrow> rds_group \<Rightarrow> rds_parser" where
  "rds_parse_group_basic_ps p g =
     (let address = unat (blk_b g AND 0x3);
          char_index = 2 * address;
          ch0 = hi_byte (blk_d g);
          ch1 = lo_byte (blk_d g);
          p1 = p\<lparr>ps_scratch_str := (ps_scratch_str p)[char_index := ch0]\<rparr>;
          p2 = p1\<lparr>ps_scratch_str := (ps_scratch_str p1)[char_index + 1 := ch1]\<rparr>;
          finished = (address = 3)
      in if finished then p2\<lparr>ps_str := memcpy (ps_str p2) (ps_scratch_str p2) 8\<rparr>
         else p2)"

definition rds_parse_group_basic_di :: "rds_parser \<Rightarrow> rds_group \<Rightarrow> rds_parser" where
  "rds_parse_group_basic_di p g =
     (let di_bit_index = unat (NOT (blk_b g) AND 0x3);
          di_bit = (ucast (drop_bit 2 (blk_b g) AND 0x1) :: u8);
          p1 = p\<lparr>di_scratch := di_scratch p AND NOT (push_bit di_bit_index 1)\<rparr>;
          p2 = p1\<lparr>di_scratch := di_scratch p1 OR push_bit di_bit_index di_bit\<rparr>;
          finished = (di_bit_index = 0)
      in if finished then p2\<lparr>di := di_scratch p2\<rparr> else p2)"

text \<open>
  The duplicate search of \<open>rds_add_alt_freq\<close>:
  \<^verbatim>\<open>for (i = 0; i < count; i++) if (alt_freq[i] == alt_freq) return;\<close>
\<close>

function alt_freq_present :: "u8 list \<Rightarrow> nat \<Rightarrow> nat \<Rightarrow> u8 \<Rightarrow> bool" where
  "alt_freq_present xs n i v =
     (if i < n then (if xs ! i = v then True else alt_freq_present xs n (Suc i) v)
      else False)"
  by pat_completeness auto
termination
  by (relation "measure (\<lambda>(xs, n, i, v). n - i)") auto

definition rds_add_alt_freq :: "rds_parser \<Rightarrow> u8 \<Rightarrow> rds_parser" where
  "rds_add_alt_freq p v =
     (if v = 0 \<or> 205 \<le> v then p
      else if unat (alt_freq_count p) = 25 then p
      else if alt_freq_present (alt_freq p) (unat (alt_freq_count p)) 0 v then p
      else p\<lparr>alt_freq := (alt_freq p)[unat (alt_freq_count p) := v],
             alt_freq_count := alt_freq_count p + 1\<rparr>)"

definition rds_parse_group_basic_alt_freq :: "rds_parser \<Rightarrow> rds_group \<Rightarrow> rds_parser" where
  "rds_parse_group_basic_alt_freq p g =
     (let version = rds_get_group_version g
      in if version \<noteq> 0 then p
         else let f0 = hi_byte (blk_c g);
                  f1 = lo_byte (blk_c g)
              in rds_add_alt_freq (rds_add_alt_freq p f0) f1)"

definition rds_parse_group_basic :: "rds_parser \<Rightarrow> rds_group \<Rightarrow> rds_parser" where
  "rds_parse_group_basic p g =
     rds_parse_group_basic_alt_freq
       (rds_parse_group_basic_di (rds_parse_group_basic_ps p g) g) g"

text \<open>
  The character loop of \<open>rds_parse_group_rt\<close>, over the characters still to be
  consumed: the scratch buffer, the write position, and on return whether the text is
  finished.
\<close>

fun rt_consume :: "u8 list \<Rightarrow> u8 list \<Rightarrow> nat \<Rightarrow> u8 list \<times> bool" where
  "rt_consume [] scratch char_index = (scratch, False)"
| "rt_consume (ch # chars) scratch char_index =
     (if ch = 0x0D then (scratch[char_index := 0], True)
      else let scratch' = scratch[char_index := ch]
           in if Suc char_index = 64 then (scratch', True)
              else rt_consume chars scratch' (Suc char_index))"

definition rt_group_chars :: "rds_group \<Rightarrow> u8 list" where
  "rt_group_chars g =
     (if rds_get_group_version g = 0
      then [hi_byte (blk_c g), lo_byte (blk_c g), hi_byte (blk_d g), lo_byte (blk_d g)]
      else [hi_byte (blk_d g), lo_byte (blk_d g)])"

definition rt_group_index :: "rds_group \<Rightarrow> nat" where
  "rt_group_index g =
     (let address = unat (blk_b g AND 0xF)
      in if rds_get_group_version g = 0 then address * 4 else address * 2)"

definition rds_parse_group_rt :: "rds_parser \<Rightarrow> rds_group \<Rightarrow> rds_parser" where
  "rds_parse_group_rt p g =
     (let p1 = p\<lparr>rt_scratch_a_b := (drop_bit 4 (blk_b g) AND 0x1 \<noteq> 0)\<rparr>;
          (scratch, finished) = rt_consume (rt_group_chars g) (rt_scratch_str p1) (rt_group_index g);
          p2 = p1\<lparr>rt_scratch_str := scratch\<rparr>
      in if finished
         then p2\<lparr>rt_str := memcpy (rt_str p2) (rt_scratch_str p2) 64,
                 rt_a_b := rt_scratch_a_b p2\<rparr>
         else p2)"

definition rds_parser_reset :: "rds_parser \<Rightarrow> rds_parser" where
  "rds_parser_reset p =
     \<lparr>pi_code = 0, pty = 0, tp = False, ta = False, ms = False, di = 0, di_scratch = 0,
      ps_str = replicate 9 0, ps_scratch_str = replicate 9 0,
      rt_str = replicate 65 0, rt_scratch_str = replicate 65 0,
      rt_a_b = False, rt_scratch_a_b = False,
      alt_freq = replicate 25 0, alt_freq_count = 0\<rparr>"

definition rds_parser_update :: "rds_parser \<Rightarrow> rds_group \<Rightarrow> rds_parser" where
  "rds_parser_update p g =
     (let p1 = p\<lparr>pi_code := rds_get_group_pi g\<rparr>;
          p2 = p1\<lparr>pty := rds_get_group_pty g\<rparr>;
          p3 = p2\<lparr>tp := rds_get_group_tp g\<rparr>
      in if rds_get_group_type g = RDS_GROUP_BASIC then rds_parse_group_basic p3 g
         else if rds_get_group_type g = RDS_GROUP_RT then rds_parse_group_rt p3 g
         else p3)"

text \<open>Feeding a sequence of groups, one update per group, in order.\<close>

definition rds_feed :: "rds_parser \<Rightarrow> rds_group list \<Rightarrow> rds_parser" where
  "rds_feed p gs = foldl rds_parser_update p gs"

text \<open>The public accessors of the header.\<close>

definition rds_has_music :: "rds_parser \<Rightarrow> bool" where
  "rds_has_music p = ms p"

definition rds_has_traffic_announcement :: "rds_parser \<Rightarrow> bool" where
  "rds_has_traffic_announcement p = ta p"

definition rds_get_program_service_name_str :: "rds_parser \<Rightarrow> u8 list" where
  "rds_get_program_service_name_str p = c_string (ps_str p)"


definition rds_get_alternative_frequency_count :: "rds_parser \<Rightarrow> nat" where
  "rds_get_alternative_frequency_count p = unat (alt_freq_count p)"

definition rds_get_alternative_frequency :: "rds_parser \<Rightarrow> nat \<Rightarrow> u8" where
  "rds_get_alternative_frequency p i = alt_freq p ! i"

text \<open>The alternate-frequency list a reader sees through the two accessors.\<close>

definition alt_freq_list :: "rds_parser \<Rightarrow> u8 list" where
  "alt_freq_list p =
     map (rds_get_alternative_frequency p) [0 ..< rds_get_alternative_frequency_count p]"


text \<open>Predicates naming the kind of fragment a group carries, used to state properties.\<close>

definition ps_address :: "rds_group \<Rightarrow> nat" where
  "ps_address g = unat (blk_b g AND 0x3)"

definition is_ps_fragment :: "rds_group \<Rightarrow> nat \<Rightarrow> bool" where
  "is_ps_fragment g k \<longleftrightarrow> rds_get_group_type g = RDS_GROUP_BASIC \<and> ps_address g = k"

definition ps_pair :: "rds_group \<Rightarrow> u8 list" where
  "ps_pair g = [hi_byte (blk_d g), lo_byte (blk_d g)]"



definition alt_freq_accepts :: "rds_parser \<Rightarrow> u8 \<Rightarrow> bool" where
  "alt_freq_accepts p v \<longleftrightarrow>
     0 < v \<and> v < 205 \<and> length (alt_freq_list p) < 25 \<and> v \<notin> set (alt_freq_list p)"

section \<open>FM tuner (fm\_rda5807.h, fm\_rda5807\_regs.h, fm\_rda5807.c)\<close>

subsection \<open>Environment: clock and I2C bus\<close>

text \<open>
  The tuner core calls three capabilities of the Pico SDK: \<open>time_us_64\<close>,
  \<open>sleep_ms\<close> and the blocking I2C transfers. They are modelled by an explicit world:
  the clock value, the replies the bus will give to the coming transfers (one per
  transfer, in order; an exhausted list is a bus that no longer answers), and the log of
  the transfers issued so far. A failed transfer returns \<open>PICO_ERROR_GENERIC\<close>.
\<close>

datatype bus_xfer = BusWrite u8 "u8 list" bool | BusRead u8 nat bool

datatype bus_reply = BusFail | BusAck "u8 list"

record world =
  time_us :: u64
  bus_replies :: "bus_reply list"
  bus_log :: "bus_xfer list"

definition PICO_ERROR_GENERIC :: int where "PICO_ERROR_GENERIC = -1"

definition time_us_64 :: "world \<Rightarrow> u64" where
  "time_us_64 w = time_us w"


definition i2c_write_blocking :: "world \<Rightarrow> u8 \<Rightarrow> u8 list \<Rightarrow> bool \<Rightarrow> int \<times> world" where
  "i2c_write_blocking w addr src nostop =
     (let w1 = w\<lparr>bus_log := bus_log w @ [BusWrite addr src nostop]\<rparr>
      in case bus_replies w1 of
           [] \<Rightarrow> (PICO_ERROR_GENERIC, w1)
         | BusFail # rs \<Rightarrow> (PICO_ERROR_GENERIC, w1\<lparr>bus_replies := rs\<rparr>)
         | BusAck data # rs \<Rightarrow> (int (length src), w1\<lparr>bus_replies := rs\<rparr>))"

definition i2c_read_blocking :: "world \<Rightarrow> u8 \<Rightarrow> nat \<Rightarrow> bool \<Rightarrow> int \<times> u8 list \<times> world" where
  "i2c_read_blocking w addr len nostop =
     (let w1 = w\<lparr>bus_log := bus_log w @ [BusRead addr len nostop]\<rparr>
      in case bus_replies w1 of
           [] \<Rightarrow> (PICO_ERROR_GENERIC, replicate len 0, w1)
         | BusFail # rs \<Rightarrow> (PICO_ERROR_GENERIC, replicate len 0, w1\<lparr>bus_replies := rs\<rparr>)
         | BusAck data # rs \<Rightarrow>
             (int len, take len (data @ replicate len 0), w1\<lparr>bus_replies := rs\<rparr>))"

subsection \<open>Data model\<close>

text \<open>
  A C \<open>float\<close> is an IEEE 754 binary32 value, modelled by the rational it denotes. Each
  arithmetic operation and each decimal literal is the exact result rounded to the nearest
  binary32 value, ties to even. A normal value lies in a binade \<open>2 powi e \<le> |x| < 2 powi (e + 1)\<close>
  with \<open>e\<close> from -126 to 127 and has a 24-bit significand, so its neighbours are
  \<open>2 powi (e - 23)\<close> apart; below \<open>2 powi (- 126)\<close> the values are \<open>2 powi (- 149)\<close> apart.
  Infinities and NaN are not modelled: a magnitude of \<open>2 powi 128\<close> or more, far above
  every frequency of the driver, is left as it is. Every operation rounds on its own (the
  RP2040 computes floats in software, so a product and a sum are never fused).
\<close>

type_synonym float32 = rat

definition round_even :: "rat \<Rightarrow> int" where
  "round_even y =
     (let n = \<lfloor>y\<rfloor>; r = y - of_int n
      in if r < 1 / 2 then n else if 1 / 2 < r then n + 1 else if even n then n else n + 1)"

definition binary32_exponents :: "int list" where
  "binary32_exponents = [- 126 .. 127]"

definition binade :: "rat \<Rightarrow> int option" where
  "binade x =
     find (\<lambda>e. 2 powi e \<le> \<bar>x\<bar> \<and> \<bar>x\<bar> < 2 powi (e + 1)) binary32_exponents"

definition rnd32 :: "rat \<Rightarrow> float32" where
  "rnd32 x =
     (case binade x of
        Some e \<Rightarrow> of_int (round_even (x / 2 powi (e - 23))) * 2 powi (e - 23)
      | None \<Rightarrow>
          if \<bar>x\<bar> < 2 powi (- 126)
          then of_int (round_even (x / 2 powi (- 149))) * 2 powi (- 149)
          else x)"

definition f32_add :: "float32 \<Rightarrow> float32 \<Rightarrow> float32" where
  "f32_add x y = rnd32 (x + y)"


definition f32_mul :: "float32 \<Rightarrow> float32 \<Rightarrow> float32" where
  "f32_mul x y = rnd32 (x * y)"


datatype error = AssertionFailed

datatype fm_band =
  FM_BAND_COMMON | FM_BAND_JAPAN | FM_BAND_JAPAN_WIDE | FM_BAND_EAST_EUROPE
  | FM_BAND_EAST_EUROPE_UPPER

datatype fm_channel_spacing =
  FM_CHANNEL_SPACING_200 | FM_CHANNEL_SPACING_100 | FM_CHANNEL_SPACING_50
  | FM_CHANNEL_SPACING_25

datatype fm_deemphasis = FM_DEEMPHASIS_75 | FM_DEEMPHASIS_50

record fm_config =
  band :: fm_band
  channel_spacing :: fm_channel_spacing
  deemphasis :: fm_deemphasis

text \<open>\<open>fm_frequency_range_t\<close>; the field \<open>top\<close> of the source is \<open>top_freq\<close> here.\<close>

record fm_frequency_range =
  bottom :: float32
  top_freq :: float32
  spacing :: float32

datatype fm_seek_direction = FM_SEEK_DOWN | FM_SEEK_UP

text \<open>\<open>fm_async_progress_t\<close>; the field \<open>done\<close> of the source is \<open>is_done\<close> here.\<close>

record fm_async_progress =
  is_done :: bool
  result :: int

text \<open>
  The task pointer of \<open>fm_async_state_t\<close> is one of the two static task functions or
  NULL: an optional tag.
\<close>

datatype fm_async_task = SetFrequencyTask | SeekTask

record fm_async_state =
  task :: "fm_async_task option"
  state :: u8
  resume_time :: u64

text \<open>\<open>rda5807_t\<close>; the field \<open>mono\<close> of the source is \<open>mono_flag\<close> here.\<close>

record rda5807 =
  i2c_inst :: nat
  sdio_pin :: u8
  sclk_pin :: u8
  enable_pull_ups :: bool
  config :: fm_config
  frequency_range :: fm_frequency_range
  seek_threshold :: u8
  frequency :: float32
  volume :: u8
  mute :: bool
  softmute :: bool
  bass_boost :: bool
  mono_flag :: bool
  regs :: "u16 list"
  async :: fm_async_state



definition TUNE_POLL_INTERVAL_MS :: nat where "TUNE_POLL_INTERVAL_MS = 5"
definition SEEK_POLL_INTERVAL_MS :: nat where "SEEK_POLL_INTERVAL_MS = 200"

subsection \<open>Register layout (fm\_rda5807\_regs.h)\<close>

definition RDA5807_ADDR_SEQUENTIAL :: u8 where "RDA5807_ADDR_SEQUENTIAL = 0x10"
definition RDA5807_ADDR_RANDOM_ACCESS :: u8 where "RDA5807_ADDR_RANDOM_ACCESS = 0x11"

definition ENABLE_BIT :: u16 where "ENABLE_BIT = push_bit 0 1"
definition SKMODE_BIT :: u16 where "SKMODE_BIT = push_bit 7 1"
definition SEEK_BIT :: u16 where "SEEK_BIT = push_bit 8 1"
definition SEEKUP_BIT :: u16 where "SEEKUP_BIT = push_bit 9 1"
definition TUNE_BIT :: u16 where "TUNE_BIT = push_bit 4 1"
definition READCHAN_LSB :: nat where "READCHAN_LSB = 0"
definition READCHAN_BITS :: u16 where "READCHAN_BITS = drop_bit READCHAN_LSB 0x3FF"
definition SF_BIT :: u16 where "SF_BIT = push_bit 13 1"
definition STC_BIT :: u16 where "STC_BIT = push_bit 14 1"

text \<open>The bit macros of fm\_rda5807.c; the mask and the shift of a field are passed both.\<close>

definition fm_set_bit :: "u16 \<Rightarrow> u16 \<Rightarrow> bool \<Rightarrow> u16" where
  "fm_set_bit reg msk v = (if v then reg OR msk else reg AND NOT msk)"

definition fm_get_bit :: "u16 \<Rightarrow> u16 \<Rightarrow> bool" where
  "fm_get_bit reg msk \<longleftrightarrow> reg AND msk \<noteq> 0"


definition fm_get_bits :: "u16 \<Rightarrow> u16 \<Rightarrow> nat \<Rightarrow> u16" where
  "fm_get_bits reg msk lsb = drop_bit lsb (reg AND msk)"

subsection \<open>Frequency range and channel conversion\<close>

definition fm_frequency_range_of :: "fm_band \<Rightarrow> fm_channel_spacing \<Rightarrow> fm_frequency_range" where
  "fm_frequency_range_of b s =
     (let (lo, hi) = (case b of
            FM_BAND_COMMON \<Rightarrow> (87, 108)
          | FM_BAND_JAPAN \<Rightarrow> (76, 91)
          | FM_BAND_JAPAN_WIDE \<Rightarrow> (76, 108)
          | FM_BAND_EAST_EUROPE \<Rightarrow> (50, 76)
          | FM_BAND_EAST_EUROPE_UPPER \<Rightarrow> (65, 76));
          step = (case s of
            FM_CHANNEL_SPACING_200 \<Rightarrow> rnd32 (2 / 10)
          | FM_CHANNEL_SPACING_100 \<Rightarrow> rnd32 (1 / 10)
          | _ \<Rightarrow> rnd32 (5 / 100))
      in \<lparr>bottom = lo, top_freq = hi, spacing = step\<rparr>)"


definition fm_channel_to_frequency :: "u16 \<Rightarrow> fm_frequency_range \<Rightarrow> float32" where
  "fm_channel_to_frequency channel rng =
     f32_add (f32_mul (of_nat (unat channel)) (spacing rng)) (bottom rng)"



subsection \<open>Register access\<close>

text \<open>
  The copy loops of \<open>fm_read_registers\<close> (two bytes, high first, into each register
  from \<open>0xA\<close> on) and \<open>fm_write_registers\<close> (each register from \<open>0x2\<close> on into
  two bytes).
\<close>

fun store_regs :: "u16 list \<Rightarrow> nat \<Rightarrow> u8 list \<Rightarrow> u16 list" where
  "store_regs rs k (hi # lo # buf) =
     store_regs (rs[k := push_bit 8 (ucast hi) OR ucast lo]) (Suc k) buf"
| "store_regs rs k buf = rs"

fun reg_bytes :: "u16 list \<Rightarrow> u8 list" where
  "reg_bytes [] = []"
| "reg_bytes (reg # rs) = hi_byte reg # lo_byte reg # reg_bytes rs"

definition fm_read_registers :: "world \<Rightarrow> u16 list \<Rightarrow> nat \<Rightarrow> error + (bool \<times> u16 list \<times> world)" where
  "fm_read_registers w rs n =
     (if \<not> n \<le> 6 then Inl AssertionFailed
      else let data_size = n * 2;
               (res, buf, w1) = i2c_read_blocking w RDA5807_ADDR_SEQUENTIAL data_size False
           in if res \<noteq> int data_size then Inr (False, rs, w1)
              else Inr (True, store_regs rs 0xA buf, w1))"

definition fm_write_registers :: "world \<Rightarrow> u16 list \<Rightarrow> nat \<Rightarrow> error + (bool \<times> world)" where
  "fm_write_registers w rs n =
     (if \<not> n \<le> 7 then Inl AssertionFailed
      else let data_size = n * 2;
               buf = reg_bytes (take n (drop 0x2 rs));
               (res, w1) = i2c_write_blocking w RDA5807_ADDR_SEQUENTIAL buf False
           in Inr (res = int data_size, w1))"


definition fm_write_single_register :: "world \<Rightarrow> u16 list \<Rightarrow> nat \<Rightarrow> error + (bool \<times> world)" where
  "fm_write_single_register w rs reg_index =
     (if \<not> (0x2 \<le> reg_index \<and> reg_index \<le> 0x8) then Inl AssertionFailed
      else if reg_index = 0x2 then fm_write_registers w rs 1
      else let reg = rs ! reg_index;
               buf = [of_nat reg_index, hi_byte reg, lo_byte reg];
               (res, w1) = i2c_write_blocking w RDA5807_ADDR_RANDOM_ACCESS buf False
           in Inr (res = 3, w1))"

definition fm_read_single_register :: "world \<Rightarrow> u16 list \<Rightarrow> nat \<Rightarrow> error + (bool \<times> u16 list \<times> world)" where
  "fm_read_single_register w rs reg_index =
     (if \<not> reg_index \<le> 0xF then Inl AssertionFailed
      else if reg_index = 0xA then fm_read_registers w rs 1
      else let (res, w1) = i2c_write_blocking w RDA5807_ADDR_RANDOM_ACCESS [of_nat reg_index] True
           in if res \<noteq> 1 then Inr (False, rs, w1)
              else let (res2, buf, w2) = i2c_read_blocking w1 RDA5807_ADDR_RANDOM_ACCESS 2 False
                   in if res2 \<noteq> 2 then Inr (False, rs, w2)
                      else Inr (True, rs[reg_index := push_bit 8 (ucast (buf ! 0)) OR ucast (buf ! 1)], w2))"

subsection \<open>Public interface\<close>

definition async_idle :: fm_async_state where
  "async_idle = \<lparr>task = None, state = 0, resume_time = 0\<rparr>"

definition fm_init :: "nat \<Rightarrow> u8 \<Rightarrow> u8 \<Rightarrow> bool \<Rightarrow> rda5807" where
  "fm_init inst sdio sclk pull_ups =
     \<lparr>i2c_inst = inst, sdio_pin = sdio, sclk_pin = sclk, enable_pull_ups = pull_ups,
      config = \<lparr>band = FM_BAND_COMMON, channel_spacing = FM_CHANNEL_SPACING_200,
                deemphasis = FM_DEEMPHASIS_75\<rparr>,
      frequency_range = \<lparr>bottom = 0, top_freq = 0, spacing = 0\<rparr>,
      seek_threshold = 8, frequency = 0, volume = 0, mute = True, softmute = True,
      bass_boost = False, mono_flag = False, regs = replicate 16 0, async = async_idle\<rparr>"

definition fm_is_powered_up :: "rda5807 \<Rightarrow> bool" where
  "fm_is_powered_up r = fm_get_bit (regs r ! 0x2) ENABLE_BIT"

text \<open>
  The two task functions. Each either returns early with \<open>done = false\<close> after
  rescheduling itself, or runs its final part: clear the start bit, write it, read the
  channel back. The final part is a definition of its own, entered from both branches.
\<close>

definition fm_set_frequency_finish ::
  "rda5807 \<Rightarrow> world \<Rightarrow> int \<Rightarrow> error + (fm_async_progress \<times> rda5807 \<times> world)" where
  "fm_set_frequency_finish r w res =
     (let rs1 = (regs r)[0x3 := fm_set_bit (regs r ! 0x3) TUNE_BIT False]
      in case fm_write_single_register w rs1 0x3 of
           Inl e \<Rightarrow> Inl e
         | Inr (ok, w1) \<Rightarrow>
             (case fm_read_single_register w1 rs1 0xA of
                Inl e \<Rightarrow> Inl e
              | Inr (ok2, rs2, w2) \<Rightarrow>
                  (let channel = fm_get_bits (rs2 ! 0xA) READCHAN_BITS READCHAN_LSB
                   in Inr (\<lparr>is_done = True, result = res\<rparr>,
                           r\<lparr>regs := rs2,
                             frequency := fm_channel_to_frequency channel (frequency_range r)\<rparr>,
                           w2))))"

definition fm_set_frequency_async_task ::
  "rda5807 \<Rightarrow> world \<Rightarrow> bool \<Rightarrow> error + (fm_async_progress \<times> rda5807 \<times> world)" where
  "fm_set_frequency_async_task r w cancel =
     (if task (async r) \<noteq> Some SetFrequencyTask then Inl AssertionFailed
      else if state (async r) \<noteq> 1 then Inl AssertionFailed
      else if cancel then fm_set_frequency_finish r w (- 1)
      else case fm_read_single_register w (regs r) 0xA of
             Inl e \<Rightarrow> Inl e
           | Inr (ok, rs, w1) \<Rightarrow>
               (let r1 = r\<lparr>regs := rs\<rparr>
                in if \<not> fm_get_bit (rs ! 0xA) STC_BIT
                   then Inr (\<lparr>is_done = False, result = 0\<rparr>,
                             r1\<lparr>async := (async r1)\<lparr>resume_time :=
                                  time_us_64 w1 + of_nat (TUNE_POLL_INTERVAL_MS * 1000)\<rparr>\<rparr>,
                             w1)
                   else fm_set_frequency_finish r1 w1 0))"

definition fm_seek_finish ::
  "rda5807 \<Rightarrow> world \<Rightarrow> int \<Rightarrow> error + (fm_async_progress \<times> rda5807 \<times> world)" where
  "fm_seek_finish r w res =
     (let rs1 = (regs r)[0x2 := fm_set_bit (regs r ! 0x2) SEEK_BIT False]
      in case fm_write_single_register w rs1 0x2 of
           Inl e \<Rightarrow> Inl e
         | Inr (ok, w1) \<Rightarrow>
             (case fm_read_single_register w1 rs1 0xA of
                Inl e \<Rightarrow> Inl e
              | Inr (ok2, rs2, w2) \<Rightarrow>
                  (let channel = fm_get_bits (rs2 ! 0xA) READCHAN_BITS READCHAN_LSB
                   in Inr (\<lparr>is_done = True, result = res\<rparr>,
                           r\<lparr>regs := rs2,
                             frequency := fm_channel_to_frequency channel (frequency_range r)\<rparr>,
                           w2))))"

definition fm_seek_async_task ::
  "rda5807 \<Rightarrow> world \<Rightarrow> bool \<Rightarrow> error + (fm_async_progress \<times> rda5807 \<times> world)" where
  "fm_seek_async_task r w cancel =
     (if task (async r) \<noteq> Some SeekTask then Inl AssertionFailed
      else if state (async r) \<noteq> 1 then Inl AssertionFailed
      else if cancel then fm_seek_finish r w (- 1)
      else case fm_read_single_register w (regs r) 0xA of
             Inl e \<Rightarrow> Inl e
           | Inr (ok, rs, w1) \<Rightarrow>
               (let r1 = r\<lparr>regs := rs\<rparr>
                in if \<not> fm_get_bit (rs ! 0xA) STC_BIT
                   then (let channel = fm_get_bits (rs ! 0xA) READCHAN_BITS READCHAN_LSB;
                             r2 = r1\<lparr>frequency :=
                                    fm_channel_to_frequency channel (frequency_range r1)\<rparr>
                         in Inr (\<lparr>is_done = False, result = 0\<rparr>,
                                 r2\<lparr>async := (async r2)\<lparr>resume_time :=
                                      time_us_64 w1 + of_nat (SEEK_POLL_INTERVAL_MS * 1000)\<rparr>\<rparr>,
                                 w1))
                   else fm_seek_finish r1 w1 (if fm_get_bit (rs ! 0xA) SF_BIT then - 1 else 0)))"

text \<open>The call through the stored task pointer.\<close>

definition run_task ::
  "fm_async_task \<Rightarrow> rda5807 \<Rightarrow> world \<Rightarrow> bool \<Rightarrow> error + (fm_async_progress \<times> rda5807 \<times> world)" where
  "run_task t = (case t of SetFrequencyTask \<Rightarrow> fm_set_frequency_async_task
                         | SeekTask \<Rightarrow> fm_seek_async_task)"

definition fm_async_task_tick ::
  "rda5807 \<Rightarrow> world \<Rightarrow> error + (fm_async_progress \<times> rda5807 \<times> world)" where
  "fm_async_task_tick r w =
     (case task (async r) of
        None \<Rightarrow> Inl AssertionFailed
      | Some t \<Rightarrow>
          if time_us_64 w < resume_time (async r)
          then Inr (\<lparr>is_done = False, result = 0\<rparr>, r, w)
          else case run_task t r w False of
                 Inl e \<Rightarrow> Inl e
               | Inr (progress, r1, w1) \<Rightarrow>
                   if is_done progress then Inr (progress, r1\<lparr>async := async_idle\<rparr>, w1)
                   else Inr (progress, r1, w1))"




definition fm_seek_async ::
  "rda5807 \<Rightarrow> world \<Rightarrow> fm_seek_direction \<Rightarrow> error + (rda5807 \<times> world)" where
  "fm_seek_async r w direction =
     (if \<not> fm_is_powered_up r then Inl AssertionFailed
      else if task (async r) \<noteq> None then Inl AssertionFailed
      else let rs1 = (regs r)[0x2 := fm_set_bit (regs r ! 0x2) SKMODE_BIT False];
               rs2 = rs1[0x2 := fm_set_bit (rs1 ! 0x2) SEEKUP_BIT (direction = FM_SEEK_UP)];
               rs3 = rs2[0x2 := fm_set_bit (rs2 ! 0x2) SEEK_BIT True]
           in case fm_write_single_register w rs3 0x2 of
                Inl e \<Rightarrow> Inl e
              | Inr (ok, w1) \<Rightarrow>
                  Inr (r\<lparr>regs := rs3,
                         async := \<lparr>task = Some SeekTask, state = 1,
                                   resume_time = time_us_64 w1
                                     + of_nat (SEEK_POLL_INTERVAL_MS * 1000)\<rparr>\<rparr>,
                       w1))"









subsection \<open>A concrete device\<close>

text \<open>
  A device as \<open>fm_init\<close> and a power-up with the European configuration leave it, tuned
  to 100 MHz (channel 130), and a world whose bus fails the next transfer.
\<close>

definition radio_100 :: rda5807 where
  "radio_100 = (fm_init 0 4 5 True)
     \<lparr>config := \<lparr>band = FM_BAND_COMMON, channel_spacing = FM_CHANNEL_SPACING_100,
                 deemphasis = FM_DEEMPHASIS_50\<rparr>,
      frequency_range := fm_frequency_range_of FM_BAND_COMMON FM_CHANNEL_SPACING_100,
      frequency := 100,
      regs := [0x5804, 0, 0x800D, 0x2080, 0x0A00, 0x8880, 0, 0, 0, 0, 0x4082, 0, 0, 0, 0, 0]\<rparr>"




definition radio_tuning :: rda5807 where
  "radio_tuning = radio_100
     \<lparr>regs := (regs radio_100)[0x3 := 0x2310],
      async := \<lparr>task = Some SetFrequencyTask, state = 1, resume_time = 5000\<rparr>\<rparr>"

definition world_retune :: world where
  "world_retune =
     \<lparr>time_us = 0, bus_replies = [BusAck [], BusAck [0x40, 0x8C], BusAck []], bus_log = []\<rparr>"

subsection \<open>Concrete groups\<close>

text \<open>
  Four basic groups (0A) carrying the station name \<open>RADIO ON\<close> at addresses 0 to 3, with
  alternate-frequency bytes in block C, and three radio-text groups (2A) carrying
  \<open>HELLO WORL\<close> followed by a carriage return.
\<close>

definition ps_frag0 :: rds_group where
  "ps_frag0 = \<lparr>blk_a = 0x1234, blk_b = 0x0000, blk_c = 0x00CD, blk_d = 0x5241\<rparr>"

definition ps_frag1 :: rds_group where
  "ps_frag1 = \<lparr>blk_a = 0x1234, blk_b = 0x0001, blk_c = 0x6464, blk_d = 0x4449\<rparr>"

definition ps_frag2 :: rds_group where
  "ps_frag2 = \<lparr>blk_a = 0x1234, blk_b = 0x0002, blk_c = 0x6500, blk_d = 0x4F20\<rparr>"

definition ps_frag3 :: rds_group where
  "ps_frag3 = \<lparr>blk_a = 0x1234, blk_b = 0x0003, blk_c = 0x0000, blk_d = 0x4F4E\<rparr>"

definition rt_frag0 :: rds_group where
  "rt_frag0 = \<lparr>blk_a = 0x1234, blk_b = 0x2000, blk_c = 0x4845, blk_d = 0x4C4C\<rparr>"


definition rt_frag2 :: rds_group where
  "rt_frag2 = \<lparr>blk_a = 0x1234, blk_b = 0x2002, blk_c = 0x524C, blk_d = 0x0D00\<rparr>"

definition parser_zero :: rds_parser where
  "parser_zero =
     \<lparr>pi_code = 0, pty = 0, tp = False, ta = False, ms = False, di = 0, di_scratch = 0,
      ps_str = replicate 9 0, ps_scratch_str = replicate 9 0,
      rt_str = replicate 65 0, rt_scratch_str = replicate 65 0,
      rt_a_b = False, rt_scratch_a_b = False,
      alt_freq = replicate 25 0, alt_freq_count = 0\<rparr>"

section \<open>Properties of the RDS parser\<close>

subsection \<open>Frame lemmas: what each step leaves alone\<close>

lemma add_alt_freq_frame:
  "ta (rds_add_alt_freq p v) = ta p" "ms (rds_add_alt_freq p v) = ms p"
  "ps_str (rds_add_alt_freq p v) = ps_str p"
  "ps_scratch_str (rds_add_alt_freq p v) = ps_scratch_str p"
  "rt_str (rds_add_alt_freq p v) = rt_str p"
  "rt_scratch_str (rds_add_alt_freq p v) = rt_scratch_str p"
  by (simp_all add: rds_add_alt_freq_def)

lemma basic_alt_freq_frame:
  "ta (rds_parse_group_basic_alt_freq p g) = ta p"
  "ms (rds_parse_group_basic_alt_freq p g) = ms p"
  "ps_str (rds_parse_group_basic_alt_freq p g) = ps_str p"
  "ps_scratch_str (rds_parse_group_basic_alt_freq p g) = ps_scratch_str p"
  "rt_str (rds_parse_group_basic_alt_freq p g) = rt_str p"
  "rt_scratch_str (rds_parse_group_basic_alt_freq p g) = rt_scratch_str p"
  by (simp_all add: rds_parse_group_basic_alt_freq_def Let_def add_alt_freq_frame)

lemma basic_di_frame:
  "ta (rds_parse_group_basic_di p g) = ta p"
  "ms (rds_parse_group_basic_di p g) = ms p"
  "ps_str (rds_parse_group_basic_di p g) = ps_str p"
  "ps_scratch_str (rds_parse_group_basic_di p g) = ps_scratch_str p"
  "rt_str (rds_parse_group_basic_di p g) = rt_str p"
  "rt_scratch_str (rds_parse_group_basic_di p g) = rt_scratch_str p"
  by (simp_all add: rds_parse_group_basic_di_def Let_def)

lemma basic_ps_frame:
  "ta (rds_parse_group_basic_ps p g) = ta p"
  "ms (rds_parse_group_basic_ps p g) = ms p"
  "rt_str (rds_parse_group_basic_ps p g) = rt_str p"
  "rt_scratch_str (rds_parse_group_basic_ps p g) = rt_scratch_str p"
  by (simp_all add: rds_parse_group_basic_ps_def Let_def)

lemma rt_frame:
  "ta (rds_parse_group_rt p g) = ta p"
  "ms (rds_parse_group_rt p g) = ms p"
  "ps_str (rds_parse_group_rt p g) = ps_str p"
  "ps_scratch_str (rds_parse_group_rt p g) = ps_scratch_str p"
  by (simp_all add: rds_parse_group_rt_def Let_def split: prod.splits)

lemma update_ta_ms:
  "ta (rds_parser_update p g) = ta p" "ms (rds_parser_update p g) = ms p"
  by (simp_all add: rds_parser_update_def Let_def rds_parse_group_basic_def
      basic_alt_freq_frame basic_di_frame basic_ps_frame rt_frame)

lemma feed_ta_ms:
  "ta (rds_feed p gs) = ta p \<and> ms (rds_feed p gs) = ms p"
  unfolding rds_feed_def
  by (induction gs arbitrary: p) (simp_all add: update_ta_ms)

lemma parser_zero_wf: "parser_wf parser_zero"
  by (simp add: parser_wf_def parser_zero_def)

lemma reset_wf: "parser_wf (rds_parser_reset p)"
  by (simp add: parser_wf_def rds_parser_reset_def)

subsection \<open>Station name\<close>

lemma update_ps_scratch:
  "rds_get_group_type g = RDS_GROUP_BASIC \<Longrightarrow>
   ps_scratch_str (rds_parser_update p g) =
     (ps_scratch_str p)[2 * unat (blk_b g AND 0x3) := hi_byte (blk_d g),
                        2 * unat (blk_b g AND 0x3) + 1 := lo_byte (blk_d g)]"
  by (simp add: rds_parser_update_def Let_def rds_parse_group_basic_def
      basic_alt_freq_frame basic_di_frame rds_parse_group_basic_ps_def)

lemma update_ps_str:
  "rds_get_group_type g = RDS_GROUP_BASIC \<Longrightarrow>
   ps_str (rds_parser_update p g) =
     (if unat (blk_b g AND 0x3) = 3
      then memcpy (ps_str p) (ps_scratch_str (rds_parser_update p g)) 8
      else ps_str p)"
  by (simp add: rds_parser_update_def Let_def rds_parse_group_basic_def
      basic_alt_freq_frame basic_di_frame rds_parse_group_basic_ps_def)

lemma list9:
  "length xs = 9 \<Longrightarrow> \<exists>x0 x1 x2 x3 x4 x5 x6 x7 x8. xs = [x0, x1, x2, x3, x4, x5, x6, x7, x8]"
  by (simp add: eval_nat_numeral length_Suc_conv) blast

lemma update_ps_str_partial:
  "rds_get_group_type g = RDS_GROUP_BASIC \<Longrightarrow> ps_address g < 3 \<Longrightarrow>
   ps_str (rds_parser_update p g) = ps_str p"
  by (simp add: ps_address_def update_ps_str)

lemma feed_ps_str_partial:
  "\<forall>g \<in> set gs. rds_get_group_type g = RDS_GROUP_BASIC \<and> ps_address g < 3 \<Longrightarrow>
   ps_str (rds_feed p gs) = ps_str p"
  unfolding rds_feed_def
  by (induction gs arbitrary: p) (simp_all add: update_ps_str_partial)

lemma ps_commit_alone:
  assumes "parser_wf p" "is_ps_fragment g 3"
  shows "ps_str (rds_parser_update p g) = take 6 (ps_scratch_str p) @ ps_pair g @ [ps_str p ! 8]"
proof -
  from assms(1) have l: "length (ps_scratch_str p) = 9" "length (ps_str p) = 9"
    by (simp_all add: parser_wf_def)
  obtain x0 x1 x2 x3 x4 x5 x6 x7 x8
    where s: "ps_scratch_str p = [x0, x1, x2, x3, x4, x5, x6, x7, x8]"
    using list9 [OF l(1)] by blast
  obtain y0 y1 y2 y3 y4 y5 y6 y7 y8
    where t: "ps_str p = [y0, y1, y2, y3, y4, y5, y6, y7, y8]"
    using list9 [OF l(2)] by blast
  from assms(2) have b: "rds_get_group_type g = RDS_GROUP_BASIC"
    and a: "unat (blk_b g AND 0x3) = 3"
    by (simp_all add: is_ps_fragment_def ps_address_def)
  show ?thesis
    by (simp add: update_ps_str [OF b] update_ps_scratch [OF b] a s t memcpy_def ps_pair_def)
qed

lemma ps_full_cycle:
  assumes wf: "parser_wf p"
    and g0: "is_ps_fragment g0 0" and g1: "is_ps_fragment g1 1"
    and g2: "is_ps_fragment g2 2" and g3: "is_ps_fragment g3 3"
  shows "ps_str (rds_feed p [g0, g1, g2, g3]) =
           (ps_pair g0 @ ps_pair g1 @ ps_pair g2 @ ps_pair g3) @ [ps_str p ! 8]"
proof -
  from wf have l: "length (ps_scratch_str p) = 9" "length (ps_str p) = 9"
    by (simp_all add: parser_wf_def)
  obtain x0 x1 x2 x3 x4 x5 x6 x7 x8
    where s: "ps_scratch_str p = [x0, x1, x2, x3, x4, x5, x6, x7, x8]"
    using list9 [OF l(1)] by blast
  obtain y0 y1 y2 y3 y4 y5 y6 y7 y8
    where t: "ps_str p = [y0, y1, y2, y3, y4, y5, y6, y7, y8]"
    using list9 [OF l(2)] by blast
  note b = g0 [unfolded is_ps_fragment_def ps_address_def]
    g1 [unfolded is_ps_fragment_def ps_address_def]
    g2 [unfolded is_ps_fragment_def ps_address_def]
    g3 [unfolded is_ps_fragment_def ps_address_def]
  show ?thesis
    by (simp add: rds_feed_def update_ps_str update_ps_scratch b s t memcpy_def ps_pair_def)
qed

lemma c_string_terminated:
  "\<forall>ch \<in> set xs. ch \<noteq> 0 \<Longrightarrow> c_string (xs @ 0 # ys) = xs"
  by (simp add: c_string_def takeWhile_tail)

text \<open>
  C3. Feeding basic groups whose fragment address is 0, 1 or 2, in any combination and any
  number of times, leaves the public station-name buffer, and so the string read from it,
  unchanged. Feeding four basic groups with the addresses 0, 1, 2, 3 in this order makes
  the eight characters of the public buffer the concatenation of the four character pairs;
  the string read from it is that concatenation when none of the characters is NUL and the
  ninth byte of the buffer, which no update writes, is the terminator.
\<close>

theorem station_name_atomic:
  assumes "parser_wf p"
  shows "((\<forall>g \<in> set gs. rds_get_group_type g = RDS_GROUP_BASIC \<and> ps_address g < 3) \<longrightarrow>
            ps_str (rds_feed p gs) = ps_str p \<and>
            rds_get_program_service_name_str (rds_feed p gs) = rds_get_program_service_name_str p)
       \<and> (is_ps_fragment g0 0 \<and> is_ps_fragment g1 1 \<and> is_ps_fragment g2 2 \<and> is_ps_fragment g3 3 \<longrightarrow>
            take 8 (ps_str (rds_feed p [g0, g1, g2, g3]))
              = ps_pair g0 @ ps_pair g1 @ ps_pair g2 @ ps_pair g3 \<and>
            ((\<forall>ch \<in> set (ps_pair g0 @ ps_pair g1 @ ps_pair g2 @ ps_pair g3). ch \<noteq> 0)
              \<and> ps_str p ! 8 = 0 \<longrightarrow>
             rds_get_program_service_name_str (rds_feed p [g0, g1, g2, g3])
               = ps_pair g0 @ ps_pair g1 @ ps_pair g2 @ ps_pair g3))"
proof (intro conjI impI)
  assume "\<forall>g \<in> set gs. rds_get_group_type g = RDS_GROUP_BASIC \<and> ps_address g < 3"
  then have e: "ps_str (rds_feed p gs) = ps_str p"
    by (rule feed_ps_str_partial)
  show "ps_str (rds_feed p gs) = ps_str p" by (rule e)
  show "rds_get_program_service_name_str (rds_feed p gs) = rds_get_program_service_name_str p"
    by (simp add: rds_get_program_service_name_str_def e)
next
  assume f: "is_ps_fragment g0 0 \<and> is_ps_fragment g1 1 \<and> is_ps_fragment g2 2 \<and> is_ps_fragment g3 3"
  let ?name = "ps_pair g0 @ ps_pair g1 @ ps_pair g2 @ ps_pair g3"
  have full: "ps_str (rds_feed p [g0, g1, g2, g3]) = ?name @ [ps_str p ! 8]"
    using ps_full_cycle [OF assms] f by blast
  have len: "length ?name = 8" by (simp add: ps_pair_def)
  show "take 8 (ps_str (rds_feed p [g0, g1, g2, g3])) = ?name"
    unfolding full using len by simp
  assume "(\<forall>ch \<in> set ?name. ch \<noteq> 0) \<and> ps_str p ! 8 = 0"
  then show "rds_get_program_service_name_str (rds_feed p [g0, g1, g2, g3]) = ?name"
    unfolding rds_get_program_service_name_str_def full
    using c_string_terminated [of ?name "[]"] by simp
qed

theorem station_name_atomic_witness:
  "parser_wf parser_zero
   \<and> list_all (\<lambda>g. rds_get_group_type g = RDS_GROUP_BASIC \<and> ps_address g < 3)
         [ps_frag0, ps_frag2, ps_frag1, ps_frag0]
   \<and> rds_get_program_service_name_str (rds_feed parser_zero [ps_frag0, ps_frag2, ps_frag1, ps_frag0])
       = rds_get_program_service_name_str parser_zero
   \<and> is_ps_fragment ps_frag0 0 \<and> is_ps_fragment ps_frag1 1
   \<and> is_ps_fragment ps_frag2 2 \<and> is_ps_fragment ps_frag3 3
   \<and> list_all (\<lambda>ch. ch \<noteq> 0)
         (ps_pair ps_frag0 @ ps_pair ps_frag1 @ ps_pair ps_frag2 @ ps_pair ps_frag3)
   \<and> ps_str parser_zero ! 8 = 0
   \<and> rds_get_program_service_name_str (rds_feed parser_zero [ps_frag0, ps_frag1, ps_frag2, ps_frag3])
       = ps_pair ps_frag0 @ ps_pair ps_frag1 @ ps_pair ps_frag2 @ ps_pair ps_frag3"
proof -
  have h1: "\<forall>g \<in> set [ps_frag0, ps_frag2, ps_frag1, ps_frag0].
      rds_get_group_type g = RDS_GROUP_BASIC \<and> ps_address g < 3"
    by code_simp
  have h2: "is_ps_fragment ps_frag0 0 \<and> is_ps_fragment ps_frag1 1
      \<and> is_ps_fragment ps_frag2 2 \<and> is_ps_fragment ps_frag3 3"
    by code_simp
  have h3: "(\<forall>ch \<in> set (ps_pair ps_frag0 @ ps_pair ps_frag1 @ ps_pair ps_frag2 @ ps_pair ps_frag3). ch \<noteq> 0)
      \<and> ps_str parser_zero ! 8 = 0"
    by code_simp
  show ?thesis
    using station_name_atomic [OF parser_zero_wf,
        of "[ps_frag0, ps_frag2, ps_frag1, ps_frag0]" ps_frag0 ps_frag1 ps_frag2 ps_frag3]
      parser_zero_wf h1 h2 h3
    unfolding list_all_iff by blast
qed

text \<open>
  C10. A single basic group with fragment address 3 copies the eight characters of the
  scratch buffer to the public station name whatever the earlier groups were: the public
  buffer becomes the first six bytes the scratch buffer held, followed by the pair of this
  group. Straight after a reset these six bytes are zero.
\<close>

theorem station_name_commit_on_address_3:
  assumes "parser_wf p" "is_ps_fragment g 3"
  shows "ps_str (rds_parser_update p g) = take 6 (ps_scratch_str p) @ ps_pair g @ [ps_str p ! 8]
       \<and> ps_str (rds_parser_update (rds_parser_reset p) g) = replicate 6 0 @ ps_pair g @ [0]"
proof
  show "ps_str (rds_parser_update p g) = take 6 (ps_scratch_str p) @ ps_pair g @ [ps_str p ! 8]"
    using assms by (rule ps_commit_alone)
  have "ps_str (rds_parser_update (rds_parser_reset p) g)
      = take 6 (ps_scratch_str (rds_parser_reset p)) @ ps_pair g @ [ps_str (rds_parser_reset p) ! 8]"
    using reset_wf assms(2) by (rule ps_commit_alone)
  then show "ps_str (rds_parser_update (rds_parser_reset p) g) = replicate 6 0 @ ps_pair g @ [0]"
    by (simp add: rds_parser_reset_def)
qed

theorem station_name_commit_on_address_3_witness:
  "parser_wf parser_zero \<and> is_ps_fragment ps_frag3 3
   \<and> ps_str (rds_parser_update (rds_parser_reset parser_zero) ps_frag3)
       = [0, 0, 0, 0, 0, 0, 0x4F, 0x4E, 0]
   \<and> rds_get_program_service_name_str (rds_parser_update (rds_parser_reset parser_zero) ps_frag3) = []"
proof -
  have h: "is_ps_fragment ps_frag3 3" by code_simp
  have v: "ps_pair ps_frag3 = [0x4F, 0x4E]" by code_simp
  have "ps_str (rds_parser_update (rds_parser_reset parser_zero) ps_frag3)
      = replicate 6 0 @ ps_pair ps_frag3 @ [0]"
    using station_name_commit_on_address_3 [OF parser_zero_wf h] by blast
  then have "ps_str (rds_parser_update (rds_parser_reset parser_zero) ps_frag3)
      = [0, 0, 0, 0, 0, 0, 0x4F, 0x4E, 0]"
    by (simp add: v eval_nat_numeral)
  then show ?thesis
    using parser_zero_wf h by (simp add: rds_get_program_service_name_str_def c_string_def)
qed

text \<open>
  C9. No update writes the traffic-announcement flag or the music/speech flag: after a
  reset and any sequence of groups, both accessors return false.
\<close>

theorem flags_never_written:
  "\<not> rds_has_traffic_announcement (rds_feed (rds_parser_reset p) gs) \<and>
   \<not> rds_has_music (rds_feed (rds_parser_reset p) gs)"
  by (simp add: rds_has_traffic_announcement_def rds_has_music_def feed_ta_ms
      rds_parser_reset_def)

theorem flags_never_written_witness:
  "\<not> rds_has_traffic_announcement
       (rds_feed (rds_parser_reset parser_zero) [ps_frag0, rt_frag0, ps_frag3, rt_frag2]) \<and>
   \<not> rds_has_music
       (rds_feed (rds_parser_reset parser_zero) [ps_frag0, rt_frag0, ps_frag3, rt_frag2])"
  by (rule flags_never_written)

subsection \<open>Alternate frequencies\<close>

text \<open>The loop equation is unfolded by hand: as a rewrite rule it would not terminate.\<close>

declare alt_freq_present.simps [simp del]

lemma alt_freq_present_iff:
  "alt_freq_present xs n i v \<longleftrightarrow> (\<exists>j. i \<le> j \<and> j < n \<and> xs ! j = v)"
proof (induction xs n i v rule: alt_freq_present.induct)
  case (1 xs n i v)
  show ?case
  proof (cases "i < n")
    case False
    then show ?thesis by (subst alt_freq_present.simps) auto
  next
    case True
    show ?thesis
    proof (cases "xs ! i = v")
      case True
      with \<open>i < n\<close> show ?thesis by (subst alt_freq_present.simps) auto
    next
      case False
      with \<open>i < n\<close> 1
      have "alt_freq_present xs n i v \<longleftrightarrow> (\<exists>j. Suc i \<le> j \<and> j < n \<and> xs ! j = v)"
        by (subst alt_freq_present.simps) simp
      also have "\<dots> \<longleftrightarrow> (\<exists>j. i \<le> j \<and> j < n \<and> xs ! j = v)"
        using False by (metis Suc_leD Suc_leI le_neq_implies_less)
      finally show ?thesis .
    qed
  qed
qed

lemma alt_freq_list_take:
  "unat (alt_freq_count p) \<le> length (alt_freq p) \<Longrightarrow>
   alt_freq_list p = take (unat (alt_freq_count p)) (alt_freq p)"
  by (auto simp: alt_freq_list_def rds_get_alternative_frequency_def
      rds_get_alternative_frequency_count_def intro!: nth_equalityI)

lemma alt_freq_present_set:
  "n \<le> length xs \<Longrightarrow> alt_freq_present xs n 0 v \<longleftrightarrow> v \<in> set (take n xs)"
  by (auto simp: alt_freq_present_iff in_set_conv_nth)

lemma add_alt_freq_dropped:
  assumes "length (alt_freq p) = 25" "unat (alt_freq_count p) \<le> 25" "\<not> alt_freq_accepts p v"
  shows "rds_add_alt_freq p v = p"
proof -
  have l: "alt_freq_list p = take (unat (alt_freq_count p)) (alt_freq p)"
    using assms by (simp add: alt_freq_list_take)
  have pr: "alt_freq_present (alt_freq p) (unat (alt_freq_count p)) 0 v \<longleftrightarrow> v \<in> set (alt_freq_list p)"
    using assms by (simp add: alt_freq_present_set l)
  from assms(3) show ?thesis
    using assms(1,2)
    by (auto simp: rds_add_alt_freq_def alt_freq_accepts_def pr l word_neq_0_conv not_less)
qed

lemma add_alt_freq_appended:
  assumes "length (alt_freq p) = 25" "unat (alt_freq_count p) \<le> 25" "alt_freq_accepts p v"
  shows "alt_freq_list (rds_add_alt_freq p v) = alt_freq_list p @ [v]"
proof -
  let ?n = "unat (alt_freq_count p)"
  have l: "alt_freq_list p = take ?n (alt_freq p)"
    using assms by (simp add: alt_freq_list_take)
  have pr: "alt_freq_present (alt_freq p) ?n 0 v \<longleftrightarrow> v \<in> set (alt_freq_list p)"
    using assms by (simp add: alt_freq_present_set l)
  from assms(3) have n: "?n < 25" and v: "v \<noteq> 0" "\<not> 205 \<le> v"
    and nd: "v \<notin> set (alt_freq_list p)"
    using assms(1,2) by (auto simp: alt_freq_accepts_def l)
  have suc: "unat (alt_freq_count p + 1) = Suc ?n"
    using n by (simp add: unat_word_ariths)
  have eq: "rds_add_alt_freq p v =
      p\<lparr>alt_freq := (alt_freq p)[?n := v], alt_freq_count := alt_freq_count p + 1\<rparr>"
    using n v nd by (simp add: rds_add_alt_freq_def pr)
  have "alt_freq_list (rds_add_alt_freq p v) = take (Suc ?n) ((alt_freq p)[?n := v])"
    unfolding eq using assms(1) n by (subst alt_freq_list_take) (simp_all add: suc)
  also have "\<dots> = take ?n (alt_freq p) @ [v]"
    using assms(1) n by (simp add: take_Suc_conv_app_nth)
  finally show ?thesis by (simp add: l)
qed

lemma alt_freq_example:
  "alt_freq_list (foldl rds_add_alt_freq (rds_parser_reset p) [0, 205, 100, 100, 101]) = [100, 101]"
  by code_simp

text \<open>
  C4. For a parser whose list holds at most its 25 entries, a candidate byte is appended
  to the alternate-frequency list exactly when it lies strictly between 0 and 205, the
  list holds fewer than 25 entries and the byte is not in it yet; otherwise the parser is
  left as it was. Adding 0, 205, 100, 100, 101 to a reset parser gives the list 100, 101.
\<close>

theorem alt_freq_appended_iff_accepted:
  assumes "parser_wf p" "unat (alt_freq_count p) \<le> 25"
  shows "(alt_freq_accepts p v \<longrightarrow>
            alt_freq_list (rds_add_alt_freq p v) = alt_freq_list p @ [v])
       \<and> (\<not> alt_freq_accepts p v \<longrightarrow> rds_add_alt_freq p v = p)
       \<and> alt_freq_list (foldl rds_add_alt_freq (rds_parser_reset p) [0, 205, 100, 100, 101])
           = [100, 101]"
proof -
  from assms(1) have l: "length (alt_freq p) = 25" by (simp add: parser_wf_def)
  show ?thesis
  proof (intro conjI impI)
    assume "alt_freq_accepts p v"
    with l assms(2) show "alt_freq_list (rds_add_alt_freq p v) = alt_freq_list p @ [v]"
      by (rule add_alt_freq_appended)
  next
    assume "\<not> alt_freq_accepts p v"
    with l assms(2) show "rds_add_alt_freq p v = p"
      by (rule add_alt_freq_dropped)
  next
    show "alt_freq_list (foldl rds_add_alt_freq (rds_parser_reset p) [0, 205, 100, 100, 101])
        = [100, 101]"
      by (rule alt_freq_example)
  qed
qed

theorem alt_freq_appended_iff_accepted_witness:
  "parser_wf parser_zero \<and> unat (alt_freq_count parser_zero) \<le> 25
   \<and> alt_freq_accepts parser_zero 100
   \<and> alt_freq_list (rds_add_alt_freq parser_zero 100) = alt_freq_list parser_zero @ [100]
   \<and> \<not> alt_freq_accepts parser_zero 205
   \<and> rds_add_alt_freq parser_zero 205 = parser_zero
   \<and> alt_freq_list (foldl rds_add_alt_freq (rds_parser_reset parser_zero) [0, 205, 100, 100, 101])
       = [100, 101]
   \<and> alt_freq_list (rds_feed parser_zero [ps_frag0, ps_frag1, ps_frag2]) = [100, 101]"
proof -
  have h1: "parser_wf parser_zero" and h1': "unat (alt_freq_count parser_zero) \<le> 25"
    by (simp_all add: parser_wf_def parser_zero_def)
  have h2: "alt_freq_accepts parser_zero 100"
    by (simp add: alt_freq_accepts_def parser_zero_def alt_freq_list_def
        rds_get_alternative_frequency_count_def)
  have h3: "\<not> alt_freq_accepts parser_zero 205"
    by (simp add: alt_freq_accepts_def)
  have h4: "alt_freq_list (rds_feed parser_zero [ps_frag0, ps_frag1, ps_frag2]) = [100, 101]"
    by code_simp
  show ?thesis
    using alt_freq_appended_iff_accepted [OF h1 h1', of 100]
      alt_freq_appended_iff_accepted [OF h1 h1', of 205] h1 h1' h2 h3 h4
    by simp
qed

subsection \<open>Radio text\<close>













section \<open>Properties of binary32 rounding\<close>
















subsection \<open>Channel conversion\<close>









section \<open>Properties of the tuner\<close>

subsection \<open>Register access never trips its assertions on the indices the driver uses\<close>






subsection \<open>Setters\<close>














subsection \<open>Async tasks and power down\<close>

text \<open>
  C6. With a task in flight, a tick made while the clock is before the task's resume time
  returns not-done and leaves the device and the world as they were: no bus transfer, no
  change of state; so the task function runs only at or after the resume time.
\<close>

theorem tick_before_resume_time_is_noop:
  assumes "task (async r) \<noteq> None" "time_us_64 w < resume_time (async r)"
  shows "fm_async_task_tick r w = Inr (\<lparr>is_done = False, result = 0\<rparr>, r, w)"
  using assms by (auto simp: fm_async_task_tick_def)

theorem tick_before_resume_time_is_noop_witness:
  "task (async radio_tuning) \<noteq> None \<and> time_us_64 world_retune < resume_time (async radio_tuning)
   \<and> fm_async_task_tick radio_tuning world_retune
       = Inr (\<lparr>is_done = False, result = 0\<rparr>, radio_tuning, world_retune)"
proof -
  have h1: "task (async radio_tuning) \<noteq> None"
    by (simp add: radio_tuning_def)
  have h2: "time_us_64 world_retune < resume_time (async radio_tuning)"
    by (simp add: radio_tuning_def world_retune_def time_us_64_def)
  from h1 h2 tick_before_resume_time_is_noop [OF h1 h2] show ?thesis by (intro conjI)
qed










end
